theory Spec2Isabelle
  imports Main
begin

section \<open>Python values used by app.py\<close>

text \<open>
  A Python \<open>str\<close> is a sequence of Unicode code points and \<open>len\<close> counts code points,
  so a \<open>str\<close> is modelled as the list of its code points. The fixed notice texts of the
  script are kept as Isabelle strings.
\<close>

type_synonym str = "nat list"

text \<open>
  An external call (PyMuPDF, pytesseract, python-docx, the OpenAI client) either returns a
  value or raises an exception, whose message the script prints in a notice.
\<close>

datatype 'a attempt = Raised string | Returned 'a

text \<open>\<open>str.isspace\<close> for one code point (the white space that \<open>str.strip()\<close> removes).\<close>

definition isspace :: "nat \<Rightarrow> bool" where
  "isspace c \<longleftrightarrow>
     (9 \<le> c \<and> c \<le> 13) \<or> (28 \<le> c \<and> c \<le> 32) \<or> c = 133 \<or> c = 160 \<or> c = 5760 \<or>
     (8192 \<le> c \<and> c \<le> 8202) \<or> c = 8232 \<or> c = 8233 \<or> c = 8239 \<or> c = 8287 \<or> c = 12288"

text \<open>\<open>s.strip()\<close>: leading and trailing white space removed.\<close>

definition strip :: "str \<Rightarrow> str" where
  "strip s = rev (dropWhile isspace (rev (dropWhile isspace s)))"

text \<open>
  \<open>s.split(sep)\<close> for a separator of one code point: the segments between the
  occurrences of \<open>sep\<close>, so that \<open>"".split(sep) = [""]\<close>.
\<close>

fun split :: "nat \<Rightarrow> str \<Rightarrow> str list" where
  "split sep [] = [] # []"
| "split sep (c # cs) =
     (if c = sep then [] # split sep cs
      else (case split sep cs of [] \<Rightarrow> [c] # [] | w # ws \<Rightarrow> (c # w) # ws))"

text \<open>\<open>sep.join(xs)\<close> for a separator of one code point.\<close>

fun join :: "nat \<Rightarrow> str list \<Rightarrow> str" where
  "join sep [] = []"
| "join sep [x] = x"
| "join sep (x # y # ys) = x @ sep # join sep (y # ys)"

text \<open>
  \<open>s.lower()\<close> on the letters A to Z. The script only compares the lowered file extension
  with \<open>pdf\<close>, \<open>docx\<close> and \<open>txt\<close>, and no code point outside A to Z lowers to one of
  their letters, so the comparisons see no other part of \<open>str.lower\<close>.
\<close>

definition lower :: "str \<Rightarrow> str" where
  "lower s = map (\<lambda>c. if 65 \<le> c \<and> c \<le> 90 then c + 32 else c) s"

text \<open>The literals \<open>"pdf"\<close>, \<open>"docx"\<close> and \<open>"txt"\<close>.\<close>

definition pdf_ext :: str where
  "pdf_ext = [112, 100, 102]"

definition docx_ext :: str where
  "docx_ext = [100, 111, 99, 120]"

definition txt_ext :: str where
  "txt_ext = [116, 120, 116]"

section \<open>Session state\<close>

text \<open>
  The keys of \<open>st.session_state\<close> that the script initialises (lines 214 to 235): the
  document text, the name of the file it came from, twelve result slots and three input
  fields.
\<close>

record session_state =
  full_text :: str
  uploaded_file_name :: "str option"
  summary_result :: str
  takeaways_result :: str
  qa_answer_result :: str
  clause_explanation_result :: str
  entities_result :: str
  obligations_rights_result :: str
  glossary_result :: str
  outline_result :: str
  risk_opportunity_result :: str
  comparison_result :: str
  jurisdiction_result :: str
  sentiment_result :: str
  q_a_input_tab :: str
  clause_select_tab :: str
  compare_input_tab :: str

text \<open>The state of a fresh session, after the initialisation of lines 214 to 235.\<close>

definition initial_state :: session_state where
  "initial_state =
     \<lparr>full_text = [], uploaded_file_name = None,
      summary_result = [], takeaways_result = [], qa_answer_result = [],
      clause_explanation_result = [], entities_result = [], obligations_rights_result = [],
      glossary_result = [], outline_result = [], risk_opportunity_result = [],
      comparison_result = [], jurisdiction_result = [], sentiment_result = [],
      q_a_input_tab = [], clause_select_tab = [], compare_input_tab = []\<rparr>"

text \<open>The notices the script puts on the page.\<close>

datatype notice = Success string | Error string | Info string | Warning string

section \<open>The upload handler (lines 243 to 312)\<close>

text \<open>
  An uploaded file, as the handler sees it: its name, and what each extraction library
  does with its bytes. \<open>ocr_pages\<close> is \<open>convert_from_bytes\<close> followed by
  \<open>pytesseract.image_to_string\<close> on each image, \<open>pdf_pages\<close> is \<open>fitz.open\<close> followed by
  \<open>get_text\<close> on each page, \<open>docx_paragraphs\<close> is \<open>Document(...)\<close> with the text of its
  paragraphs, and \<open>txt_decoded\<close> is \<open>read().decode("utf-8")\<close>.
\<close>

record uploaded_file =
  name :: str
  ocr_pages :: "str attempt list attempt"
  pdf_pages :: "str attempt list attempt"
  docx_paragraphs :: "str list attempt"
  txt_decoded :: "str attempt"

text \<open>
  The loop of lines 255 and 256 appends each page's text to \<open>text_list\<close>; the first
  exception leaves the loop, and the list is joined only after the loop.
\<close>

fun ocr_loop :: "str list \<Rightarrow> str attempt list \<Rightarrow> str list attempt" where
  "ocr_loop text_list [] = Returned text_list"
| "ocr_loop text_list (Returned t # imgs) = ocr_loop (text_list @ [t]) imgs"
| "ocr_loop text_list (Raised e # imgs) = Raised e"

text \<open>
  The loop of lines 265 and 266 appends each page's text to \<open>processed_text\<close> itself; the
  first exception leaves the loop with what was appended so far.
\<close>

fun pdf_loop :: "str \<Rightarrow> str attempt list \<Rightarrow> str \<times> string option" where
  "pdf_loop processed_text [] = (processed_text, None)"
| "pdf_loop processed_text (Returned t # pages) = pdf_loop (processed_text @ t) pages"
| "pdf_loop processed_text (Raised e # pages) = (processed_text, Some e)"

text \<open>
  Lines 246 to 284: the text extracted from the file and the notices shown, by file type
  and OCR check box. \<open>processed_text\<close> starts empty.
\<close>

definition file_type :: "uploaded_file \<Rightarrow> str" where
  "file_type f = lower (last (split 46 (name f)))"

definition extract_ocr :: "uploaded_file \<Rightarrow> notice list \<times> str" where
  "extract_ocr f =
     (case ocr_pages f of
        Raised e \<Rightarrow>
          ([Error (''OCR failed: '' @ e @
              ''. Please ensure Tesseract and Poppler are correctly installed and configured.''),
            Info ''You can try unchecking 'Force OCR' if it's a searchable PDF.''], [])
      | Returned imgs \<Rightarrow>
          (case ocr_loop [] imgs of
             Raised e \<Rightarrow>
               ([Error (''OCR failed: '' @ e @
                   ''. Please ensure Tesseract and Poppler are correctly installed and configured.''),
                 Info ''You can try unchecking 'Force OCR' if it's a searchable PDF.''], [])
           | Returned text_list \<Rightarrow>
               ([Success ''OCR completed successfully!''], join 10 text_list)))"

definition extract_pdf :: "uploaded_file \<Rightarrow> notice list \<times> str" where
  "extract_pdf f =
     (case pdf_pages f of
        Raised e \<Rightarrow>
          ([Error (''Failed to extract text from PDF: '' @ e @
              ''. It might be a scanned document. Try checking 'Force OCR'.'')], [])
      | Returned pages \<Rightarrow>
          (case pdf_loop [] pages of
             (processed_text, Some e) \<Rightarrow>
               ([Error (''Failed to extract text from PDF: '' @ e @
                   ''. It might be a scanned document. Try checking 'Force OCR'.'')],
                processed_text)
           | (processed_text, None) \<Rightarrow>
               ([Success ''Text extracted from PDF.''], processed_text)))"

definition extract_docx :: "uploaded_file \<Rightarrow> notice list \<times> str" where
  "extract_docx f =
     (case docx_paragraphs f of
        Raised e \<Rightarrow> ([Error (''Failed to process DOCX file: '' @ e)], [])
      | Returned ps \<Rightarrow> ([Success ''Text extracted from DOCX.''], join 10 ps))"

definition extract_txt :: "uploaded_file \<Rightarrow> notice list \<times> str" where
  "extract_txt f =
     (case txt_decoded f of
        Raised e \<Rightarrow>
          ([Error (''Failed to read TXT file: '' @ e @
              ''. Ensure it's a valid UTF-8 text file.'')], [])
      | Returned t \<Rightarrow> ([Success ''Text extracted from TXT.''], t))"

definition process_file :: "uploaded_file \<Rightarrow> bool \<Rightarrow> notice list \<times> str" where
  "process_file f use_ocr =
     (if file_type f = pdf_ext then (if use_ocr then extract_ocr f else extract_pdf f)
      else if file_type f = docx_ext then extract_docx f
      else if file_type f = txt_ext then extract_txt f
      else ([], []))"

text \<open>
  Lines 287 to 302, the same as lines 321 to 336: every result slot and every input field
  is set to the empty string.
\<close>

definition clear_results_and_inputs :: "session_state \<Rightarrow> session_state" where
  "clear_results_and_inputs s =
     s\<lparr>summary_result := [], takeaways_result := [], qa_answer_result := [],
       clause_explanation_result := [], entities_result := [],
       obligations_rights_result := [], glossary_result := [], outline_result := [],
       risk_opportunity_result := [], comparison_result := [], jurisdiction_result := [],
       sentiment_result := [],
       q_a_input_tab := [], clause_select_tab := [], compare_input_tab := []\<rparr>"

text \<open>
  Lines 245 to 302, the body of the branch for a new file: the name is stored, the text is
  extracted and stored, and the results and inputs are cleared.
\<close>

definition process_new_file ::
  "session_state \<Rightarrow> uploaded_file \<Rightarrow> bool \<Rightarrow> notice list \<times> session_state" where
  "process_new_file s f use_ocr =
     (fst (process_file f use_ocr),
      clear_results_and_inputs
        (s\<lparr>uploaded_file_name := Some (name f),
           full_text := snd (process_file f use_ocr)\<rparr>))"

text \<open>
  The handler. The uploader widget holds a file or nothing; a file counts as new when no
  name is stored or the stored name differs from the file's name (line 243). The other two
  branches (lines 305 to 312) do nothing.
\<close>

definition load_document ::
  "session_state \<Rightarrow> uploaded_file option \<Rightarrow> bool \<Rightarrow> notice list \<times> session_state" where
  "load_document s upload use_ocr =
     (case upload of
        None \<Rightarrow> ([], s)
      | Some f \<Rightarrow>
          (case uploaded_file_name s of
             None \<Rightarrow> process_new_file s f use_ocr
           | Some stored \<Rightarrow>
               (if stored \<noteq> name f then process_new_file s f use_ocr else ([], s))))"

section \<open>The clear button (lines 317 to 338)\<close>

text \<open>Lines 318 to 336: the assignments of the handler.\<close>

definition clear_assignments :: "session_state \<Rightarrow> session_state" where
  "clear_assignments s =
     clear_results_and_inputs (s\<lparr>full_text := [], uploaded_file_name := None\<rparr>)"

text \<open>
  Line 338: after the assignments, \<open>st.rerun()\<close> ends the run and runs the script again
  from the top, with the widgets as they are. In that run the initialisation finds every
  key (lines 214 to 235), the upload handler runs on the cleared state with what the
  uploader holds, and no button is pressed, so that no later line assigns to the session
  state. The handler as a whole gives the notices of the upload handler in that run and
  the state that the run leaves.
\<close>

definition clear_document ::
  "session_state \<Rightarrow> uploaded_file option \<Rightarrow> bool \<Rightarrow> notice list \<times> session_state" where
  "clear_document s upload use_ocr = load_document (clear_assignments s) upload use_ocr"

section \<open>The feature blocks (lines 341 to 873)\<close>

text \<open>
  The features whose blocks the source text holds in full, each with the result slot it
  writes. The source text ends inside the block of the risk and opportunity analysis; that
  block and those of the comparison, jurisdiction and sentiment features are not modelled.
\<close>

datatype feature =
  Summary | Takeaways | QA | Clause | Entities | Obligations | Glossary | Outline

fun result_of :: "feature \<Rightarrow> session_state \<Rightarrow> str" where
  "result_of Summary s = summary_result s"
| "result_of Takeaways s = takeaways_result s"
| "result_of QA s = qa_answer_result s"
| "result_of Clause s = clause_explanation_result s"
| "result_of Entities s = entities_result s"
| "result_of Obligations s = obligations_rights_result s"
| "result_of Glossary s = glossary_result s"
| "result_of Outline s = outline_result s"

fun set_result :: "feature \<Rightarrow> str \<Rightarrow> session_state \<Rightarrow> session_state" where
  "set_result Summary v s = s\<lparr>summary_result := v\<rparr>"
| "set_result Takeaways v s = s\<lparr>takeaways_result := v\<rparr>"
| "set_result QA v s = s\<lparr>qa_answer_result := v\<rparr>"
| "set_result Clause v s = s\<lparr>clause_explanation_result := v\<rparr>"
| "set_result Entities v s = s\<lparr>entities_result := v\<rparr>"
| "set_result Obligations v s = s\<lparr>obligations_rights_result := v\<rparr>"
| "set_result Glossary v s = s\<lparr>glossary_result := v\<rparr>"
| "set_result Outline v s = s\<lparr>outline_result := v\<rparr>"

text \<open>The text of \<open>st.success\<close> after a completed call, per feature.\<close>

fun success_text :: "feature \<Rightarrow> string" where
  "success_text Summary = ''Executive Summary Generated!''"
| "success_text Takeaways = ''Key Takeaways Extracted!''"
| "success_text QA = ''Answer Found!''"
| "success_text Clause = ''Here's your explanation:''"
| "success_text Entities = ''Key Entities Extracted!''"
| "success_text Obligations = ''Obligations and Rights Identified!''"
| "success_text Glossary = ''Legal Glossary Generated!''"
| "success_text Outline = ''Document Outline Generated!''"

text \<open>The text of \<open>st.error\<close> in the handler of \<open>Exception\<close>, per feature, before the message.\<close>

fun unexpected_text :: "feature \<Rightarrow> string" where
  "unexpected_text Summary = ''An unexpected error occurred during summary generation: ''"
| "unexpected_text Takeaways =
     ''An unexpected error occurred during key takeaways extraction: ''"
| "unexpected_text QA = ''An unexpected error occurred during Q&A: ''"
| "unexpected_text Clause = ''An unexpected error occurred during AI explanation: ''"
| "unexpected_text Entities = ''An unexpected error occurred during entity extraction: ''"
| "unexpected_text Obligations = ''An unexpected error occurred during extraction: ''"
| "unexpected_text Glossary = ''An unexpected error occurred during glossary generation: ''"
| "unexpected_text Outline = ''An unexpected error occurred during outline generation: ''"

text \<open>
  What \<open>client.chat.completions.create\<close> does in one call. \<open>Completion c\<close>: it returns,
  and \<open>c\<close> is \<open>response.choices[0].message.content\<close>, a text or Python's \<open>None\<close>.
  \<open>APIError code resp\<close>: it raises an \<open>openai.APIError\<close>; that class is declared outside
  app.py, so the two attributes that the handler reads are taken as they come, \<open>code\<close> for
  \<open>e.status_code\<close> and \<open>resp\<close> for \<open>e.response\<close>, each printed as a text, or \<open>None\<close> when the
  exception object has no such attribute. \<open>OtherException msg\<close>: it raises any other
  exception.
\<close>

datatype engine_outcome =
  Completion "str option"
| APIError "string option" "string option"
| OtherException string

text \<open>
  How a block ends: the script goes on, or an exception that no handler catches leaves the
  script. A run returns this, the notices shown and the session state.
\<close>

datatype status = Completed | Uncaught string

type_synonym run = "status \<times> notice list \<times> session_state"

text \<open>The message of the exception that Python raises for \<open>None.strip()\<close>.\<close>

definition none_strip_message :: string where
  "none_strip_message =
     CHR 0x27 # ''NoneType'' @ CHR 0x27 # '' object has no attribute '' @
     CHR 0x27 # ''strip'' @ [CHR 0x27]"

text \<open>
  The \<open>try\<close> statement of a block (lines 379 to 397 for the question, the same in every
  block). The slot is assigned after \<open>strip()\<close>; on \<open>None\<close> the call of \<open>strip\<close> raises
  inside the \<open>try\<close> and the handler of \<open>Exception\<close> runs. The handler of \<open>openai.APIError\<close>
  formats \<open>e.status_code\<close> and \<open>e.response\<close> before it clears the slot: reading an absent
  attribute raises \<open>AttributeError\<close> inside the handler, which no handler of this \<open>try\<close>
  catches.
\<close>

fun engine_call :: "feature \<Rightarrow> engine_outcome \<Rightarrow> session_state \<Rightarrow> run" where
  "engine_call f (Completion (Some content)) s =
     (Completed, [Success (success_text f)], set_result f (strip content) s)"
| "engine_call f (Completion None) s =
     (Completed, [Error (unexpected_text f @ none_strip_message)], set_result f [] s)"
| "engine_call f (APIError (Some code) (Some resp)) s =
     (Completed,
      [Error (''OpenAI API Error: '' @ code @ '' - '' @ resp),
       Info ''Please check your API key and network connection.''],
      set_result f [] s)"
| "engine_call f (APIError (Some code) None) s = (Uncaught ''AttributeError'', [], s)"
| "engine_call f (APIError None resp) s = (Uncaught ''AttributeError'', [], s)"
| "engine_call f (OtherException msg) s =
     (Completed, [Error (unexpected_text f @ msg)], set_result f [] s)"

text \<open>
  Line 421: the clauses offered for explanation,
  \<open>[p.strip() for p in full_text.split("\n") if len(p.strip()) > 50]\<close>.
\<close>

definition clauses :: "str \<Rightarrow> str list" where
  "clauses text = [strip p. p \<leftarrow> split 10 text, 50 < length (strip p)]"

text \<open>
  The clauses as the specification words them, for comparison: the newline-separated
  segments of the text whose stripped length exceeds 50, in document order.
\<close>

definition spec_clauses :: "str \<Rightarrow> str list" where
  "spec_clauses text = filter (\<lambda>p. 50 < length (strip p)) (split 10 text)"

text \<open>
  One block, with its button pressed or not. The question block calls the engine when the
  button is pressed and the question is not empty (line 362); the question is the value
  of the text input with key \<open>q_a_input_tab\<close> (line 361). The clause block shows a
  warning and no button when there is no clause (lines 422 and 423), and otherwise calls
  the engine when its button is pressed (line 439); the selected clause goes into the
  prompt only. Every other block calls the engine when its button is pressed. The prompt
  is read by the engine only, whose outcome is given.
\<close>

definition no_clause_warning :: string where
  "no_clause_warning =
     ''No substantial clauses (paragraphs longer than 50 characters) '' @
     ''were found for individual explanation.''"

fun feature_block :: "feature \<Rightarrow> bool \<Rightarrow> engine_outcome \<Rightarrow> session_state \<Rightarrow> run" where
  "feature_block QA clicked outcome s =
     (if clicked \<and> q_a_input_tab s \<noteq> [] then engine_call QA outcome s
      else (Completed, [], s))"
| "feature_block Clause clicked outcome s =
     (if clauses (full_text s) = [] then (Completed, [Warning no_clause_warning], s)
      else if clicked then engine_call Clause outcome s
      else (Completed, [], s))"
| "feature_block f clicked outcome s =
     (if clicked then engine_call f outcome s else (Completed, [], s))"

text \<open>
  Line 341: the blocks are inside \<open>if full_text:\<close>, so with an empty document text no
  block is run and nothing is shown. (The script has left at line 28 when there is no API
  key, so the test of line 349 is false here.)
\<close>

definition run_feature :: "feature \<Rightarrow> bool \<Rightarrow> engine_outcome \<Rightarrow> session_state \<Rightarrow> run" where
  "run_feature f clicked outcome s =
     (if full_text s \<noteq> [] then feature_block f clicked outcome s else (Completed, [], s))"

text \<open>
  The TXT download button of a block (lines 403 to 409 for the question): the content is
  handed to \<open>st.download_button\<close> as it is. The button is on the page only when the slot is
  not empty (line 399).
\<close>

record download_button =
  label :: string
  data :: str
  file_name :: string
  mime :: string

fun txt_label :: "feature \<Rightarrow> string" where
  "txt_label Summary = ''Download Summary (TXT)''"
| "txt_label Takeaways = ''Download Takeaways (TXT)''"
| "txt_label QA = ''Download Q&A (TXT)''"
| "txt_label Clause = ''Download Clause (TXT)''"
| "txt_label Entities = ''Download Entities (TXT)''"
| "txt_label Obligations = ''Download Obligations (TXT)''"
| "txt_label Glossary = ''Download Glossary (TXT)''"
| "txt_label Outline = ''Download Outline (TXT)''"

fun txt_file_name :: "feature \<Rightarrow> string" where
  "txt_file_name Summary = ''executive_summary.txt''"
| "txt_file_name Takeaways = ''key_takeaways.txt''"
| "txt_file_name QA = ''qa_answer.txt''"
| "txt_file_name Clause = ''clause_explanation.txt''"
| "txt_file_name Entities = ''extracted_entities.txt''"
| "txt_file_name Obligations = ''obligations_rights.txt''"
| "txt_file_name Glossary = ''legal_glossary.txt''"
| "txt_file_name Outline = ''document_outline.txt''"

definition download_txt :: "feature \<Rightarrow> str \<Rightarrow> download_button" where
  "download_txt f content =
     \<lparr>label = txt_label f, data = content, file_name = txt_file_name f,
      mime = ''text/plain''\<rparr>"

definition txt_download :: "feature \<Rightarrow> session_state \<Rightarrow> download_button option" where
  "txt_download f s =
     (if full_text s \<noteq> [] then
        (if result_of f s \<noteq> [] then Some (download_txt f (result_of f s)) else None)
      else None)"









section \<open>Example values\<close>

text \<open>The code points of an ASCII literal.\<close>

definition of_text :: "string \<Rightarrow> str" where
  "of_text cs = map of_char cs"

text \<open>A session with the lease of file A loaded, a question asked and two results shown.\<close>

definition lease_state :: session_state where
  "lease_state =
     initial_state
       \<lparr>full_text := of_text ''Lease between X and Y'',
        uploaded_file_name := Some (of_text ''A.txt''),
        summary_result := of_text ''A lease.'',
        qa_answer_result := of_text ''Y pays X.'',
        q_a_input_tab := of_text ''Who pays?''\<rparr>"

text \<open>Files to upload: two text files that decode.\<close>

definition file_b :: uploaded_file where
  "file_b =
     \<lparr>name = of_text ''B.txt'', ocr_pages = Raised ''not a PDF'',
      pdf_pages = Raised ''not a PDF'', docx_paragraphs = Raised ''not a DOCX'',
      txt_decoded = Returned (of_text ''Deed of sale'')\<rparr>"

definition file_a :: uploaded_file where
  "file_a =
     \<lparr>name = of_text ''A.txt'', ocr_pages = Raised ''not a PDF'',
      pdf_pages = Raised ''not a PDF'', docx_paragraphs = Raised ''not a DOCX'',
      txt_decoded = Returned (of_text ''Lease between X and Y'')\<rparr>"

text \<open>
  A PDF that opens, whose first page gives its text and whose second page makes
  \<open>get_text\<close> raise.
\<close>

definition damaged_pdf :: uploaded_file where
  "damaged_pdf =
     \<lparr>name = of_text ''C.pdf'', ocr_pages = Raised ''no poppler'',
      pdf_pages = Returned [Returned (of_text ''Page one''), Raised ''bad page''],
      docx_paragraphs = Raised ''not a DOCX'', txt_decoded = Raised ''not UTF-8''\<rparr>"

section \<open>Loading and clearing\<close>

text \<open>
  C1. For every session state, every uploaded file whose name differs from the stored one
  (or when no name is stored) and either setting of the OCR check box, the upload handler
  leaves all twelve result slots and all three input fields empty, whatever they held and
  whatever the extraction does.
\<close>

theorem C1_new_upload_resets_results_and_inputs:
  assumes "uploaded_file_name s \<noteq> Some (name f)"
  shows "summary_result (snd (load_document s (Some f) use_ocr)) = []
       \<and> takeaways_result (snd (load_document s (Some f) use_ocr)) = []
       \<and> qa_answer_result (snd (load_document s (Some f) use_ocr)) = []
       \<and> clause_explanation_result (snd (load_document s (Some f) use_ocr)) = []
       \<and> entities_result (snd (load_document s (Some f) use_ocr)) = []
       \<and> obligations_rights_result (snd (load_document s (Some f) use_ocr)) = []
       \<and> glossary_result (snd (load_document s (Some f) use_ocr)) = []
       \<and> outline_result (snd (load_document s (Some f) use_ocr)) = []
       \<and> risk_opportunity_result (snd (load_document s (Some f) use_ocr)) = []
       \<and> comparison_result (snd (load_document s (Some f) use_ocr)) = []
       \<and> jurisdiction_result (snd (load_document s (Some f) use_ocr)) = []
       \<and> sentiment_result (snd (load_document s (Some f) use_ocr)) = []
       \<and> q_a_input_tab (snd (load_document s (Some f) use_ocr)) = []
       \<and> clause_select_tab (snd (load_document s (Some f) use_ocr)) = []
       \<and> compare_input_tab (snd (load_document s (Some f) use_ocr)) = []"
proof -
  have "load_document s (Some f) use_ocr = process_new_file s f use_ocr"
    using assms by (simp add: load_document_def split: option.splits)
  then show ?thesis
    by (simp add: process_new_file_def clear_results_and_inputs_def)
qed

theorem C1_new_upload_witness:
  "uploaded_file_name lease_state \<noteq> Some (name file_b)
   \<and> summary_result lease_state \<noteq> []
   \<and> q_a_input_tab lease_state \<noteq> []
   \<and> summary_result (snd (load_document lease_state (Some file_b) False)) = []
   \<and> qa_answer_result (snd (load_document lease_state (Some file_b) False)) = []
   \<and> q_a_input_tab (snd (load_document lease_state (Some file_b) False)) = []"
proof -
  have h: "uploaded_file_name lease_state \<noteq> Some (name file_b)"
    by (simp add: lease_state_def file_b_def of_text_def)
  have "summary_result lease_state \<noteq> [] \<and> q_a_input_tab lease_state \<noteq> []"
    by (simp add: lease_state_def of_text_def)
  with h C1_new_upload_resets_results_and_inputs [OF h, of False] show ?thesis
    by simp
qed

text \<open>
  C2. For every session state that stores the name of a file, an upload of a file with the
  same name changes nothing and shows nothing: the document text, the stored name, every
  result slot and every input field stay as they are, and nothing is extracted.
\<close>

theorem C2_same_upload_is_noop:
  assumes "uploaded_file_name s = Some (name f)"
  shows "load_document s (Some f) use_ocr = ([], s)"
  using assms by (simp add: load_document_def)

theorem C2_same_upload_witness:
  "uploaded_file_name lease_state = Some (name file_a)
   \<and> load_document lease_state (Some file_a) True = ([], lease_state)"
proof -
  have h: "uploaded_file_name lease_state = Some (name file_a)"
    by (simp add: lease_state_def file_a_def)
  from h C2_same_upload_is_noop [OF h, of True] show ?thesis by simp
qed

text \<open>
  The assignments of the handler leave the state of a fresh session, and with an empty
  uploader that is the state after the handler. A block whose button is not pressed
  assigns nothing.
\<close>

lemma clear_assignments_fresh: "clear_assignments s = initial_state"
  by (simp add: clear_assignments_def clear_results_and_inputs_def initial_state_def)

lemma clear_with_empty_uploader: "clear_document s None use_ocr = ([], initial_state)"
  by (simp add: clear_document_def clear_assignments_fresh load_document_def)

lemma unpressed_block_keeps_state: "snd (snd (run_feature f False outcome s)) = s"
  by (cases f) (simp_all add: run_feature_def)

text \<open>
  C3. The claim is that the clear button leaves, from every state, an empty document
  text, no stored name and empty results and inputs. With the file still in the uploader
  it does not: the run that \<open>st.rerun()\<close> starts (line 338) finds no stored name, takes the
  file as a new one (line 243) and loads it again, so that the document text and the name
  are back.
\<close>

theorem C3_clear_with_file_in_uploader_reloads:
  "clear_document lease_state (Some file_a) False =
     ([Success ''Text extracted from TXT.''],
      initial_state\<lparr>uploaded_file_name := Some (of_text ''A.txt''),
                     full_text := of_text ''Lease between X and Y''\<rparr>)"
  by (simp add: clear_document_def clear_assignments_fresh load_document_def
      process_new_file_def process_file_def file_type_def file_a_def initial_state_def
      extract_txt_def clear_results_and_inputs_def lower_def pdf_ext_def docx_ext_def
      txt_ext_def of_text_def)

section \<open>Failed extraction\<close>

text \<open>
  A new upload stores the file's name whatever the extraction does, so that a later file
  with another name is new again.
\<close>

lemma new_upload_stores_name:
  assumes "uploaded_file_name s \<noteq> Some (name f)"
  shows "uploaded_file_name (snd (load_document s (Some f) use_ocr)) = Some (name f)"
proof -
  have "load_document s (Some f) use_ocr = process_new_file s f use_ocr"
    using assms by (simp add: load_document_def split: option.splits)
  then show ?thesis
    by (simp add: process_new_file_def clear_results_and_inputs_def)
qed

text \<open>
  With OCR, a DOCX file or a TXT file, an exception leaves the extracted text empty: the
  text is assigned only after the last call has returned.
\<close>

lemma ocr_loop_raises:
  "Raised e \<in> set imgs \<Longrightarrow> \<exists>e'. ocr_loop text_list imgs = Raised e'"
proof (induction imgs arbitrary: text_list)
  case Nil
  then show ?case by simp
next
  case (Cons img imgs)
  then show ?case by (cases img) auto
qed

lemma failed_ocr_leaves_no_text:
  assumes "ocr_pages f = Raised e \<or> (\<exists>imgs. ocr_pages f = Returned imgs \<and> Raised e \<in> set imgs)"
  shows "snd (extract_ocr f) = []"
  using assms ocr_loop_raises [of e _ "[]"]
  by (fastforce simp: extract_ocr_def split: attempt.splits)

lemma failed_docx_leaves_no_text:
  "docx_paragraphs f = Raised e \<Longrightarrow> snd (extract_docx f) = []"
  by (simp add: extract_docx_def)

lemma failed_txt_leaves_no_text:
  "txt_decoded f = Raised e \<Longrightarrow> snd (extract_txt f) = []"
  by (simp add: extract_txt_def)

text \<open>
  C5. The claim is that a new upload whose extraction fails leaves the document text
  empty, stores the new name and clears all results and inputs. The name is stored and
  the results and inputs are cleared on every path. The text is not empty when a PDF is
  read without OCR and \<open>get_text\<close> raises after the first page: the pages read before the
  exception stay in \<open>processed_text\<close> and are stored, next to the notice that the
  extraction failed.
\<close>

theorem C5_failed_pdf_keeps_text_of_first_pages:
  "load_document lease_state (Some damaged_pdf) False =
     ([Error (''Failed to extract text from PDF: bad page'' @
              ''. It might be a scanned document. Try checking 'Force OCR'.'')],
      initial_state\<lparr>uploaded_file_name := Some (of_text ''C.pdf''),
                     full_text := of_text ''Page one''\<rparr>)"
  by (simp add: load_document_def process_new_file_def process_file_def file_type_def
      damaged_pdf_def lease_state_def initial_state_def extract_pdf_def
      clear_results_and_inputs_def lower_def pdf_ext_def of_text_def)

section \<open>Running a feature\<close>

text \<open>
  The blocks are inside \<open>if full_text:\<close> (line 341): with an empty document text no
  button is on the page and no block is run, whatever the engine would do.
\<close>

lemma empty_document_runs_no_block:
  assumes "full_text s = []"
  shows "run_feature f clicked outcome s = (Completed, [], s)"
  using assms by (simp add: run_feature_def)

text \<open>
  C6. The claim is that a failed engine call empties the slot of its feature and modifies
  no other slot. The handler of \<open>openai.APIError\<close> prints \<open>e.status_code\<close> and
  \<open>e.response\<close> before it clears the slot (lines 392 to 394). For an \<open>APIError\<close> without
  these attributes, the exception raised by reading them leaves the script before the slot
  is cleared: the answer of the earlier question stays in the slot.
\<close>

theorem C6_api_error_without_status_keeps_old_result:
  "run_feature QA True (APIError None None) lease_state =
     (Uncaught ''AttributeError'', [], lease_state)
   \<and> qa_answer_result lease_state = of_text ''Y pays X.''"
  by (simp add: run_feature_def lease_state_def initial_state_def of_text_def)

text \<open>
  The other failures are caught: the slot of the feature is cleared and nothing else is
  modified.
\<close>

lemma caught_failure_clears_slot:
  assumes "outcome = OtherException msg \<or> outcome = APIError (Some code) (Some resp)
           \<or> outcome = Completion None"
  shows "snd (snd (engine_call f outcome s)) = set_result f [] s"
  using assms by auto

lemma set_result_touches_one_slot:
  "result_of g (set_result f v s) = (if g = f then v else result_of g s)"
  by (cases f; cases g) simp_all

text \<open>
  C7. The claim is that asking for an answer with an empty question raises a precondition
  violation and changes nothing. The script raises nothing and shows nothing: the test of
  line 362 is false and the block is skipped.
\<close>

theorem C7_empty_question_raises_nothing:
  "run_feature QA True (Completion (Some (of_text ''Y pays X.'')))
       (lease_state\<lparr>q_a_input_tab := []\<rparr>) =
     (Completed, [], lease_state\<lparr>q_a_input_tab := []\<rparr>)"
  by (simp add: run_feature_def lease_state_def initial_state_def)

text \<open>
  C7, amended. For every session state with an empty question, a press on the answer
  button is skipped: the engine's outcome is not used, nothing is raised, no notice is
  shown, and the answer slot and all other session state are unchanged.
\<close>

theorem C7_empty_question_skips_answer:
  assumes "q_a_input_tab s = []"
  shows "run_feature QA clicked outcome s = (Completed, [], s)"
  using assms by (simp add: run_feature_def)

theorem C7_empty_question_witness:
  "q_a_input_tab (lease_state\<lparr>q_a_input_tab := []\<rparr>) = []
   \<and> qa_answer_result (lease_state\<lparr>q_a_input_tab := []\<rparr>) = of_text ''Y pays X.''
   \<and> run_feature QA True (APIError (Some ''401'') (Some ''Unauthorized''))
         (lease_state\<lparr>q_a_input_tab := []\<rparr>) =
       (Completed, [], lease_state\<lparr>q_a_input_tab := []\<rparr>)"
proof -
  have h: "q_a_input_tab (lease_state\<lparr>q_a_input_tab := []\<rparr>) = []"
    by simp
  have "qa_answer_result (lease_state\<lparr>q_a_input_tab := []\<rparr>) = of_text ''Y pays X.''"
    by (simp add: lease_state_def initial_state_def)
  with h C7_empty_question_skips_answer
    [OF h, of True "APIError (Some ''401'') (Some ''Unauthorized'')"]
  show ?thesis by simp
qed

section \<open>The TXT download\<close>

lemma txt_download_on_page:
  "txt_download f s = Some b \<Longrightarrow> data b = result_of f s \<and> result_of f s \<noteq> []"
  by (auto simp: txt_download_def download_txt_def split: if_splits)














section \<open>The clauses offered for explanation\<close>

lemma split_not_empty: "split sep t \<noteq> []"
  by (cases t) (auto split: list.splits)

lemma split_without_separator: "sep \<notin> set t \<Longrightarrow> split sep t = [t]"
  by (induction t) auto

lemma join_split: "join sep (split sep t) = t"
proof (induction t)
  case Nil
  then show ?case by simp
next
  case (Cons c cs)
  obtain w ws where ws: "split sep cs = w # ws"
    using split_not_empty [of sep cs] by (cases "split sep cs") auto
  show ?case
  proof (cases "c = sep")
    case True
    with Cons ws show ?thesis by simp
  next
    case False
    with Cons ws show ?thesis by (cases ws) auto
  qed
qed

lemma split_no_separator: "p \<in> set (split sep t) \<Longrightarrow> sep \<notin> set p"
proof (induction t arbitrary: p)
  case Nil
  then show ?case by simp
next
  case (Cons c cs)
  obtain w ws where ws: "split sep cs = w # ws"
    using split_not_empty [of sep cs] by (cases "split sep cs") auto
  show ?case
  proof (cases "c = sep")
    case True
    with Cons show ?thesis by auto
  next
    case False
    with Cons.prems ws have "p = c # w \<or> p \<in> set ws" by auto
    then show ?thesis
    proof
      assume "p = c # w"
      moreover have "sep \<notin> set w" using Cons.IH [of w] ws by simp
      ultimately show ?thesis using False by auto
    next
      assume "p \<in> set ws"
      then show ?thesis using Cons.IH [of p] ws by simp
    qed
  qed
qed

lemma comprehension_map_filter:
  "concat (map (\<lambda>p. if P p then [g p] else []) xs) = map g (filter P xs)"
  by (induction xs) auto

lemma strip_indented_line: "strip (32 # replicate 51 97) = replicate 51 97"
  by (simp add: strip_def isspace_def)

lemma split_indented_line: "split 10 (32 # replicate 51 97) = [32 # replicate 51 97]"
  by (rule split_without_separator) simp

text \<open>
  C10. The claim is that the clauses offered are the newline-separated segments whose
  stripped length exceeds 50. The script offers the stripped segments, not the segments:
  a line of one space and 51 letters is offered without the space.
\<close>

theorem C10_indented_line_is_offered_stripped:
  "spec_clauses (32 # replicate 51 97) = [32 # replicate 51 97]
   \<and> clauses (32 # replicate 51 97) = [replicate 51 97]
   \<and> clauses (32 # replicate 51 97) \<noteq> spec_clauses (32 # replicate 51 97)"
  unfolding clauses_def spec_clauses_def split_indented_line
  by (simp add: strip_indented_line)

text \<open>
  C10, amended. For every document text, \<open>split\<close> cuts it at its newlines into segments
  without newline, and the clauses offered are the stripped forms of the segments whose
  stripped length exceeds 50, in document order. When there is no such segment, the clause
  block makes no engine call and changes no state; it shows the warning (or nothing when
  the document text is empty).
\<close>

theorem C10_clauses_are_stripped_long_segments:
  "join 10 (split 10 t) = t
   \<and> (\<forall>p \<in> set (split 10 t). 10 \<notin> set p)
   \<and> clauses t = map strip (filter (\<lambda>p. 50 < length (strip p)) (split 10 t))
   \<and> clauses t = map strip (spec_clauses t)
   \<and> (clauses (full_text s) = [] \<longrightarrow>
        run_feature Clause clicked outcome s =
          (Completed, (if full_text s = [] then [] else [Warning no_clause_warning]), s))"
  by (simp add: join_split split_no_separator clauses_def spec_clauses_def
      comprehension_map_filter run_feature_def)

theorem C10_clauses_witness:
  "of_text ''Lease between X and Y'' \<in> set (split 10 (full_text lease_state))
   \<and> 10 \<notin> set (of_text ''Lease between X and Y'')
   \<and> clauses (full_text lease_state) = []
   \<and> run_feature Clause True (Completion (Some (of_text ''It means...''))) lease_state =
       (Completed, [Warning no_clause_warning], lease_state)"
proof -
  have t: "full_text lease_state = of_text ''Lease between X and Y''"
    by (simp add: lease_state_def initial_state_def)
  have n: "10 \<notin> set (of_text ''Lease between X and Y'')"
    by (simp add: of_text_def)
  have m: "of_text ''Lease between X and Y'' \<in> set (split 10 (full_text lease_state))"
    by (simp add: t split_without_separator [OF n])
  have "length (strip (of_text ''Lease between X and Y'')) \<le> 50"
    by (simp add: strip_def isspace_def of_text_def)
  then have c: "clauses (full_text lease_state) = []"
    by (simp add: clauses_def t split_without_separator [OF n])
  have e: "full_text lease_state \<noteq> []"
    by (simp add: t of_text_def)
  from m n c e
    C10_clauses_are_stripped_long_segments
      [of "full_text lease_state" lease_state True "Completion (Some (of_text ''It means...''))"]
  show ?thesis by simp
qed

end
